theory Spec2Isabelle
  imports Complex_Main "HOL-Library.AList" "HOL-Library.Multiset"
begin

section \<open>Python values used by both quiz servers\<close>

text \<open>
  Strings are lists of characters and are read as ASCII text. Times are the readings of
  \<^verbatim>\<open>time.time()\<close>, taken as real numbers. Python integers are unbounded, so
  scores are \<open>int\<close> and counters are \<open>nat\<close>.
\<close>

datatype py_error = TypeError string | AttributeError string | KeyError string | OSError

datatype json = JNull | JBool bool | JNum int | JStr string
  | JArr "json list" | JObj "(string \<times> json) list"

fun py_type_name :: "json \<Rightarrow> string" where
  "py_type_name JNull = ''NoneType''"
| "py_type_name (JBool b) = ''bool''"
| "py_type_name (JNum n) = ''int''"
| "py_type_name (JStr s) = ''str''"
| "py_type_name (JArr xs) = ''list''"
| "py_type_name (JObj kvs) = ''dict''"

text \<open>\<^verbatim>\<open>d.get(key, default)\<close>; a decoded object keeps the last of several equal keys.\<close>

fun py_get :: "json \<Rightarrow> string \<Rightarrow> json \<Rightarrow> py_error + json" where
  "py_get (JObj kvs) k d = Inr (case map_of (rev kvs) k of Some v \<Rightarrow> v | None \<Rightarrow> d)"
| "py_get v k d =
     Inl (AttributeError ([CHR 0x27] @ py_type_name v @ [CHR 0x27] @ '' object has no attribute '' @ [CHR 0x27] @ ''get'' @ [CHR 0x27]))"

definition upper_char :: "char \<Rightarrow> char" where
  "upper_char c =
     (if (97::nat) \<le> of_char c \<and> of_char c \<le> (122::nat) then char_of (of_char c - (32::nat)) else c)"

definition py_upper :: "string \<Rightarrow> string" where
  "py_upper s = map upper_char s"

text \<open>\<^verbatim>\<open>v.upper()\<close> on a decoded value: only a string has the method.\<close>

fun py_upper_val :: "json \<Rightarrow> py_error + string" where
  "py_upper_val (JStr s) = Inr (py_upper s)"
| "py_upper_val v =
     Inl (AttributeError ([CHR 0x27] @ py_type_name v @ [CHR 0x27] @ '' object has no attribute '' @ [CHR 0x27] @ ''upper'' @ [CHR 0x27]))"

definition py_isspace :: "char \<Rightarrow> bool" where
  "py_isspace c \<longleftrightarrow>
     (let n = (of_char c :: nat) in (9 \<le> n \<and> n \<le> 13) \<or> (28 \<le> n \<and> n \<le> 32))"

definition py_strip :: "string \<Rightarrow> string" where
  "py_strip s = rev (dropWhile py_isspace (rev (dropWhile py_isspace s)))"

text \<open>\<^verbatim>\<open>int(x)\<close> of a float truncates towards zero.\<close>

definition py_int :: "real \<Rightarrow> int" where
  "py_int x = (if 0 \<le> x then \<lfloor>x\<rfloor> else \<lceil>x\<rceil>)"

text \<open>\<^verbatim>\<open>round(x, 2)\<close>, ties to the even neighbour.\<close>

definition py_round2 :: "real \<Rightarrow> real" where
  "py_round2 x =
     (let y = x * 100; f = \<lfloor>y\<rfloor>; d = y - of_int f
      in of_int (if d < 1 / 2 then f else if 1 / 2 < d then f + 1
                 else if even f then f else f + 1) / 100)"

function str_nat :: "nat \<Rightarrow> string" where
  "str_nat n =
     (if n < 10 then [char_of (48 + n)] else str_nat (n div 10) @ [char_of (48 + n mod 10)])"
  by pat_completeness auto
termination
  by (relation "measure (\<lambda>n. n)") auto

declare str_nat.simps [simp del]

type_synonym address = "string \<times> nat"

definition QUESTION_TIME_LIMIT :: int where
  "QUESTION_TIME_LIMIT = 10"

section \<open>Data model\<close>

record quiz_question =
  question :: string
  options :: "string list"
  answer :: string

record player =
  name :: json
  score :: int
  answers :: "string list"
  answer_times :: "real list"

record tcp_client = player +
  conn :: nat
  addr :: address

datatype entry = Entry (entry_name: json) (entry_score: int) (entry_address: "string option")

datatype payload =
    ErrorMsg string
  | Registered json nat "bool option"
  | PlayerJoined json nat
  | AnswerResult bool string int int real
  | GameStart nat
  | QuestionMsg nat nat string "string list" int
  | QuestionEnd string nat
  | LeaderboardMsg "entry list" nat nat
  | GameEnd "entry list"
  | Status bool nat nat
  | HostUpdate json
  | Heartbeat

text \<open>
  One socket write: destination, body, the sequence number (connectionless variant only) and
  whether the write went through. The \<^verbatim>\<open>timestamp\<close> field of a message is not kept.
\<close>

datatype 'd send = Send (dest: 'd) (body: payload) (seq_no: "nat option") (delivered: bool)

text \<open>
  Position of a \<^verbatim>\<open>game_loop\<close> thread, with the loop variables \<^verbatim>\<open>i\<close> and
  \<^verbatim>\<open>question\<close>: at the head of the \<^verbatim>\<open>for\<close> loop, before the locked block that
  starts the round, before the question broadcast, inside the answer window (with the
  connectionless variant's \<^verbatim>\<open>start\<close>), before the locked block that settles the
  round, before \<^verbatim>\<open>end_game\<close>, finished.
\<close>

datatype loop_pc = LoopCheck nat | LoopBegin nat quiz_question | LoopSend nat quiz_question
  | LoopWindow nat quiz_question real | LoopSettle nat quiz_question | LoopEnd | LoopDone

text \<open>What a receive loop hands to the dispatcher: a decoded message, or text that
  \<^verbatim>\<open>json.loads\<close> rejects.\<close>

datatype inbound = Decoded json | Undecodable

record ('k, 'c, 'd) quiz_server =
  questions :: "quiz_question list"
  clients :: "('k \<times> 'c) list"
  active_game :: bool
  current_question_index :: nat
  question_start_time :: "real option"
  start_threads :: nat
  game_loops :: "loop_pc list"
  wire :: "'d send list"

record tcp_server = "(nat, tcp_client, nat) quiz_server" +
  connection_counter :: nat
  host_conn_id :: "nat option"
  closed :: "nat list"
  sendall_fails :: "nat \<Rightarrow> nat \<Rightarrow> bool"

definition tcp_init :: "quiz_question list \<Rightarrow> (nat \<Rightarrow> nat \<Rightarrow> bool) \<Rightarrow> tcp_server" where
  "tcp_init qs fails =
     \<lparr>questions = qs, clients = [], active_game = False, current_question_index = 0,
      question_start_time = None, start_threads = 0, game_loops = [], wire = [],
      connection_counter = 0, host_conn_id = None, closed = [], sendall_fails = fails\<rparr>"

section \<open>Connection-oriented server: sending\<close>

text \<open>
  \<^verbatim>\<open>conn.sendall\<close> raises on a closed socket and whenever the environment says so; the
  environment's answer may depend on the socket and on how many writes came before.
\<close>

definition sendall :: "tcp_server \<Rightarrow> nat \<Rightarrow> payload \<Rightarrow> py_error + tcp_server" where
  "sendall s c p =
     (if c \<in> set (closed s) \<or> sendall_fails s c (length (wire s)) then Inl OSError
      else Inr (s\<lparr>wire := wire s @ [Send c p None True]\<rparr>))"

text \<open>\<^verbatim>\<open>send_message\<close>: the \<^verbatim>\<open>except Exception\<close> clause prints and returns.\<close>

definition tcp_send_message :: "tcp_server \<Rightarrow> nat \<Rightarrow> payload \<Rightarrow> py_error + tcp_server" where
  "tcp_send_message s c p =
     (case sendall s c p of
        Inr s' \<Rightarrow> Inr s'
      | Inl e \<Rightarrow> Inr (s\<lparr>wire := wire s @ [Send c p None False]\<rparr>))"

text \<open>The \<^verbatim>\<open>for\<close> loop of \<^verbatim>\<open>broadcast_message\<close> over the snapshot
  \<^verbatim>\<open>list(self.clients.items())\<close>, collecting \<^verbatim>\<open>disconnected\<close>.\<close>

fun tcp_broadcast_loop ::
  "tcp_server \<Rightarrow> payload \<Rightarrow> nat option \<Rightarrow> (nat \<times> tcp_client) list \<Rightarrow> nat list
     \<Rightarrow> tcp_server \<times> nat list" where
  "tcp_broadcast_loop s p ex [] disconnected = (s, disconnected)"
| "tcp_broadcast_loop s p ex ((conn_id, client) # rest) disconnected =
     (if Some conn_id \<noteq> ex then
        (case tcp_send_message s (conn client) p of
           Inr s' \<Rightarrow> tcp_broadcast_loop s' p ex rest disconnected
         | Inl e \<Rightarrow> tcp_broadcast_loop s p ex rest (disconnected @ [conn_id]))
      else tcp_broadcast_loop s p ex rest disconnected)"

lemma tcp_send_message_clients:
  "tcp_send_message s c p = Inr s' \<Longrightarrow> clients s' = clients s"
  by (auto simp: tcp_send_message_def sendall_def split: if_splits)

lemma tcp_broadcast_loop_clients:
  "tcp_broadcast_loop s p ex cs d = (s', d') \<Longrightarrow> clients s' = clients s"
  by (induction s p ex cs d rule: tcp_broadcast_loop.induct)
     (auto split: if_splits sum.splits dest: tcp_send_message_clients)

text \<open>
  \<^verbatim>\<open>remove_client\<close> and \<^verbatim>\<open>broadcast_message\<close> call each other: removing the host
  broadcasts the new host, and a broadcast removes the clients it collected.
\<close>

function tcp_remove_client :: "tcp_server \<Rightarrow> nat \<Rightarrow> tcp_server"
  and tcp_broadcast_message :: "tcp_server \<Rightarrow> payload \<Rightarrow> nat option \<Rightarrow> tcp_server"
  and tcp_remove_all :: "tcp_server \<Rightarrow> nat list \<Rightarrow> tcp_server"
where
  "tcp_remove_client s conn_id =
     (case map_of (clients s) conn_id of
        None \<Rightarrow> s
      | Some client \<Rightarrow>
          (let s1 = s\<lparr>closed := closed s @ [conn client],
                       clients := AList.delete conn_id (clients s)\<rparr>
           in if host_conn_id s1 = Some conn_id then
                (if clients s1 \<noteq> [] then
                   (let new_host_id = hd (sort (map fst (clients s1)));
                        s2 = s1\<lparr>host_conn_id := Some new_host_id\<rparr>
                    in case map_of (clients s2) new_host_id of
                         None \<Rightarrow> s2
                       | Some new_host \<Rightarrow>
                           tcp_broadcast_message s2 (HostUpdate (name new_host)) None)
                 else s1\<lparr>host_conn_id := None\<rparr>)
              else s1))"
| "tcp_broadcast_message s p ex =
     (case tcp_broadcast_loop s p ex (clients s) [] of
        (s', disconnected) \<Rightarrow> tcp_remove_all s' disconnected)"
| "tcp_remove_all s [] = s"
| "tcp_remove_all s (conn_id # rest) = tcp_remove_all (tcp_remove_client s conn_id) rest"
  by pat_completeness auto

lemma length_delete_le: "length (AList.delete k al) \<le> length al"
  by (induction al) auto

lemma length_delete_less: "map_of al k = Some v \<Longrightarrow> length (AList.delete k al) < length al"
proof (induction al)
  case Nil
  then show ?case by simp
next
  case (Cons a al)
  then show ?case
    using length_delete_le [of k al] by (cases a) (auto split: if_splits)
qed

lemma tcp_remove_shrinks:
  "tcp_remove_client_tcp_broadcast_message_tcp_remove_all_dom (Inl (s, conn_id)) \<Longrightarrow>
     length (clients (tcp_remove_client s conn_id)) \<le> length (clients s)"
  "tcp_remove_client_tcp_broadcast_message_tcp_remove_all_dom (Inr (Inl (s2, p, ex))) \<Longrightarrow>
     length (clients (tcp_broadcast_message s2 p ex)) \<le> length (clients s2)"
  "tcp_remove_client_tcp_broadcast_message_tcp_remove_all_dom (Inr (Inr (s3, ids))) \<Longrightarrow>
     length (clients (tcp_remove_all s3 ids)) \<le> length (clients s3)"
proof (induction s conn_id and s2 p ex and s3 ids
    rule: tcp_remove_client_tcp_broadcast_message_tcp_remove_all.pinduct)
  case (1 s conn_id)
  show ?case
  proof (cases "map_of (clients s) conn_id")
    case None
    with 1(1) show ?thesis by (simp add: tcp_remove_client.psimps)
  next
    case (Some client)
    have le: "length (AList.delete conn_id (clients s)) \<le> length (clients s)"
      by (rule length_delete_le)
    from Some 1(1) 1(2) [OF Some refl _ _ refl refl] le show ?thesis
      by (auto simp: tcp_remove_client.psimps Let_def split: option.splits)
  qed
next
  case (2 s p ex)
  obtain s' d where l: "tcp_broadcast_loop s p ex (clients s) [] = (s', d)"
    by (cases "tcp_broadcast_loop s p ex (clients s) []")
  from 2(2) [OF l [symmetric]] tcp_broadcast_loop_clients [OF l] 2(1) l show ?case
    by (simp add: tcp_broadcast_message.psimps)
next
  case (3 s)
  then show ?case by (simp add: tcp_remove_all.psimps)
next
  case (4 s conn_id rest)
  then show ?case by (simp add: tcp_remove_all.psimps)
qed

termination tcp_remove_client
proof (relation "inv_image (less_than <*lex*> less_than <*lex*> less_than)
    (\<lambda>x. case x of
        Inl (s, c) \<Rightarrow> (length (clients s), 0::nat, 0::nat)
      | Inr (Inl (s, p, ex)) \<Rightarrow> (length (clients s), 2, 0)
      | Inr (Inr (s, ids)) \<Rightarrow> (length (clients s), 1, length ids))", goal_cases)
  case 1
  show ?case by (intro wf_inv_image wf_lex_prod wf_less_than)
next
  case (2 s conn_id x2 x xa xb x2a)
  then show ?case using length_delete_less [of "clients s" conn_id x2] by simp
next
  case (3 s p ex x y)
  then have l: "tcp_broadcast_loop s p ex (clients s) [] = (x, y)" by simp
  from tcp_broadcast_loop_clients [OF l] show ?case by (simp add: l)
next
  case (4 s conn_id rest)
  show ?case by simp
next
  case (5 s conn_id rest)
  then show ?case using tcp_remove_shrinks(1) [of s conn_id] by auto
qed

declare tcp_remove_client.simps [simp del] tcp_broadcast_message.simps [simp del]

section \<open>Connection-oriented server: handlers\<close>

text \<open>
  Every handler returns \<open>Inl\<close> where the Python raises. All raising paths lie before the
  handler's first assignment, so the state at the raise is the state on entry.
\<close>

definition tcp_handle_client_register ::
  "tcp_server \<Rightarrow> nat \<Rightarrow> nat \<Rightarrow> json \<Rightarrow> py_error + tcp_server" where
  "tcp_handle_client_register s conn_id c data =
     (if active_game s then tcp_send_message s c (ErrorMsg ''Game already in progress'')
      else
        (case py_get data ''name'' (JStr (''Player_'' @ str_nat conn_id)) of
           Inl e \<Rightarrow> Inl e
         | Inr player_name \<Rightarrow>
             (case map_of (clients s) conn_id of
                None \<Rightarrow> Inl (KeyError (str_nat conn_id))
              | Some client \<Rightarrow>
                  (let s1 = s\<lparr>clients := AList.update conn_id
                              (client\<lparr>name := player_name, score := 0, answers := [],
                                 answer_times := []\<rparr>) (clients s)\<rparr>
                   in case tcp_send_message s1 c
                             (Registered player_name (length (clients s1))
                                (Some (Some conn_id = host_conn_id s1))) of
                        Inl e \<Rightarrow> Inl e
                      | Inr s2 \<Rightarrow>
                          Inr (tcp_broadcast_message s2
                                 (PlayerJoined player_name (length (clients s2)))
                                 (Some conn_id))))))"

definition tcp_handle_client_answer ::
  "tcp_server \<Rightarrow> nat \<Rightarrow> nat \<Rightarrow> json \<Rightarrow> real \<Rightarrow> py_error + tcp_server" where
  "tcp_handle_client_answer s conn_id c data now =
     (case map_of (clients s) conn_id of
        None \<Rightarrow> Inr s
      | Some client \<Rightarrow>
          if \<not> active_game s \<or> current_question_index s \<ge> length (questions s) then Inr s
          else if length (answers client) > current_question_index s then Inr s
          else
            (case py_get data ''answer'' (JStr []) of
               Inl e \<Rightarrow> Inl e
             | Inr raw \<Rightarrow>
                 (case py_upper_val raw of
                    Inl e \<Rightarrow> Inl e
                  | Inr upper \<Rightarrow>
                      (let submitted = py_strip upper;
                           q = questions s ! current_question_index s;
                           correct_answer = py_strip (answer q);
                           is_correct = (submitted = correct_answer)
                       in case question_start_time s of
                            None \<Rightarrow>
                              Inl (TypeError ''unsupported operand type(s) for -: float and NoneType'')
                          | Some t0 \<Rightarrow>
                              (let time_taken = now - t0;
                                   client1 = client\<lparr>answers := answers client @ [submitted],
                                               answer_times := answer_times client @ [time_taken]\<rparr>;
                                   points = (if is_correct
                                             then max 1 (py_int ((real_of_int QUESTION_TIME_LIMIT - time_taken) / 5) + 1)
                                             else 0);
                                   client2 = (if is_correct
                                              then client1\<lparr>score := score client1 + points\<rparr>
                                              else client1);
                                   s1 = s\<lparr>clients := AList.update conn_id client2 (clients s)\<rparr>
                               in tcp_send_message s1 c
                                    (AnswerResult is_correct correct_answer points (score client2)
                                       (py_round2 time_taken)))))))"

text \<open>The leaderboard list built in \<^verbatim>\<open>game_loop\<close> and in \<^verbatim>\<open>end_game\<close>:
  one entry per registry item in registry order, then a stable sort on the score with
  \<^verbatim>\<open>reverse=True\<close>.\<close>

definition tcp_leaderboard :: "tcp_server \<Rightarrow> entry list" where
  "tcp_leaderboard s =
     sort_key (\<lambda>e. - entry_score e)
       (map (\<lambda>(conn_id, client). Entry (name client) (score client) None) (clients s))"

definition tcp_end_game :: "tcp_server \<Rightarrow> tcp_server" where
  "tcp_end_game s =
     (let s1 = s\<lparr>active_game := False\<rparr>;
          leaderboard = tcp_leaderboard s1;
          s2 = tcp_broadcast_message s1 (GameEnd leaderboard) None
      in s2\<lparr>current_question_index := 0\<rparr>)"

text \<open>The body of the \<^verbatim>\<open>start_game\<close> thread; its last statement starts a
  \<^verbatim>\<open>game_loop\<close> thread.\<close>

definition tcp_start_game :: "tcp_server \<Rightarrow> tcp_server" where
  "tcp_start_game s =
     (if length (clients s) = 0 then s
      else if active_game s then s
      else
        (let s1 = s\<lparr>active_game := True, current_question_index := 0\<rparr>;
             s2 = s1\<lparr>clients := map (\<lambda>(conn_id, client).
                       (conn_id, client\<lparr>score := 0, answers := [], answer_times := []\<rparr>))
                     (clients s1)\<rparr>;
             s3 = tcp_broadcast_message s2 (GameStart (length (questions s2))) None
         in s3\<lparr>game_loops := game_loops s3 @ [LoopCheck 0]\<rparr>))"

definition tcp_handle_request_start_game ::
  "tcp_server \<Rightarrow> nat \<Rightarrow> nat \<Rightarrow> py_error + tcp_server" where
  "tcp_handle_request_start_game s conn_id c =
     (if host_conn_id s = None \<or> Some conn_id \<noteq> host_conn_id s
      then tcp_send_message s c (ErrorMsg ''Only the host can start the game'')
      else if map_of (clients s) conn_id = None
      then tcp_send_message s c (ErrorMsg ''Not registered'')
      else if \<not> active_game s \<and> length (clients s) > 0
      then Inr (s\<lparr>start_threads := start_threads s + 1\<rparr>)
      else tcp_send_message s c (ErrorMsg ''Cannot start game now''))"

text \<open>One step of a \<^verbatim>\<open>game_loop\<close> thread; \<open>now\<close> is the clock reading it takes.\<close>

fun tcp_game_loop_step :: "tcp_server \<Rightarrow> loop_pc \<Rightarrow> real \<Rightarrow> tcp_server \<times> loop_pc" where
  "tcp_game_loop_step s (LoopCheck i) now =
     (if i < length (questions s)
      then (if \<not> active_game s then (s, LoopEnd) else (s, LoopBegin i (questions s ! i)))
      else (s, LoopEnd))"
| "tcp_game_loop_step s (LoopBegin i q) now =
     (s\<lparr>current_question_index := i, question_start_time := Some now\<rparr>, LoopSend i q)"
| "tcp_game_loop_step s (LoopSend i q) now =
     (tcp_broadcast_message s
        (QuestionMsg (i + 1) (length (questions s)) (question q) (options q) QUESTION_TIME_LIMIT)
        None,
      LoopSettle i q)"
| "tcp_game_loop_step s (LoopWindow i q start) now = (s, LoopSettle i q)"
| "tcp_game_loop_step s (LoopSettle i q) now =
     (if active_game s
      then (let s1 = tcp_broadcast_message s (QuestionEnd (answer q) (i + 1)) None
            in tcp_broadcast_message s1
                 (LeaderboardMsg (tcp_leaderboard s1) (i + 1) (length (questions s1))) None,
            LoopCheck (i + 1))
      else (s, LoopCheck (i + 1)))"
| "tcp_game_loop_step s LoopEnd now = (tcp_end_game s, LoopDone)"
| "tcp_game_loop_step s LoopDone now = (s, LoopDone)"

text \<open>The prologue of \<^verbatim>\<open>handle_client\<close> for an accepted socket.\<close>

definition tcp_accept :: "tcp_server \<Rightarrow> nat \<Rightarrow> address \<Rightarrow> tcp_server" where
  "tcp_accept s c a =
     (let conn_id = connection_counter s;
          s1 = s\<lparr>connection_counter := conn_id + 1\<rparr>;
          s2 = s1\<lparr>clients := AList.update conn_id
                  \<lparr>name = JNull, score = 0, answers = [], answer_times = [], conn = c, addr = a\<rparr>
                  (clients s1)\<rparr>
      in if host_conn_id s2 = None then s2\<lparr>host_conn_id := Some conn_id\<rparr> else s2)"

text \<open>The \<^verbatim>\<open>if/elif\<close> chain on the message type.\<close>

definition tcp_dispatch ::
  "tcp_server \<Rightarrow> nat \<Rightarrow> nat \<Rightarrow> json \<Rightarrow> real \<Rightarrow> py_error + tcp_server" where
  "tcp_dispatch s conn_id c message now =
     (case py_get message ''type'' JNull of
        Inl e \<Rightarrow> Inl e
      | Inr msg_type \<Rightarrow>
          (case py_get message ''data'' (JObj []) of
             Inl e \<Rightarrow> Inl e
           | Inr msg_data \<Rightarrow>
               if msg_type = JStr ''register'' then tcp_handle_client_register s conn_id c msg_data
               else if msg_type = JStr ''answer'' then tcp_handle_client_answer s conn_id c msg_data now
               else if msg_type = JStr ''start_game'' then tcp_handle_request_start_game s conn_id c
               else if msg_type = JStr ''get_status''
               then tcp_send_message s c
                      (Status (active_game s) (length (clients s)) (current_question_index s))
               else tcp_send_message s c (ErrorMsg ''Unknown message type'')))"

text \<open>One line of the receive loop: the \<^verbatim>\<open>try\<close> with its two \<^verbatim>\<open>except\<close>
  clauses; the second one prints and goes on.\<close>

definition tcp_handle_line :: "tcp_server \<Rightarrow> nat \<Rightarrow> nat \<Rightarrow> inbound \<Rightarrow> real \<Rightarrow> tcp_server" where
  "tcp_handle_line s conn_id c m now =
     (case m of
        Undecodable \<Rightarrow>
          (case tcp_send_message s c (ErrorMsg ''Invalid JSON'') of Inr s' \<Rightarrow> s' | Inl e \<Rightarrow> s)
      | Decoded message \<Rightarrow>
          (case tcp_dispatch s conn_id c message now of Inr s' \<Rightarrow> s' | Inl e \<Rightarrow> s))"

text \<open>
  The server as a machine. Its steps are the blocks that run without interleaving: a
  connection is accepted, a connection thread handles one line (the thread's
  \<^verbatim>\<open>conn\<close> is the socket stored in its registry entry), a connection ends and runs
  the \<^verbatim>\<open>finally\<close> clause, a started \<^verbatim>\<open>start_game\<close> thread runs, a
  \<^verbatim>\<open>game_loop\<close> thread takes its next step.
\<close>

datatype tcp_event = Accept nat address | Recv nat inbound real | Hangup nat
  | TcpStartThread | TcpLoopStep nat real

fun tcp_step :: "tcp_server \<Rightarrow> tcp_event \<Rightarrow> tcp_server" where
  "tcp_step s (Accept c a) = tcp_accept s c a"
| "tcp_step s (Recv conn_id m now) =
     (case map_of (clients s) conn_id of
        None \<Rightarrow> s
      | Some client \<Rightarrow> tcp_handle_line s conn_id (conn client) m now)"
| "tcp_step s (Hangup conn_id) = tcp_remove_client s conn_id"
| "tcp_step s TcpStartThread =
     (if start_threads s > 0 then tcp_start_game (s\<lparr>start_threads := start_threads s - 1\<rparr>)
      else s)"
| "tcp_step s (TcpLoopStep k now) =
     (if k < length (game_loops s)
      then (case tcp_game_loop_step s (game_loops s ! k) now of
              (s', pc') \<Rightarrow> s'\<lparr>game_loops := (game_loops s')[k := pc']\<rparr>)
      else s)"

fun tcp_run :: "tcp_server \<Rightarrow> tcp_event list \<Rightarrow> tcp_server" where
  "tcp_run s [] = s"
| "tcp_run s (e # es) = tcp_run (tcp_step s e) es"

section \<open>Connectionless server\<close>

record udp_server = "(address, player, address) quiz_server" +
  seq :: nat
  last_rebroadcast :: real
  last_heartbeat :: real
  REBROADCAST_INTERVAL :: real
  HEARTBEAT_INTERVAL :: real
  sendto_fails :: "address \<Rightarrow> nat \<Rightarrow> bool"

definition udp_init ::
  "quiz_question list \<Rightarrow> real \<Rightarrow> real \<Rightarrow> (address \<Rightarrow> nat \<Rightarrow> bool) \<Rightarrow> udp_server" where
  "udp_init qs rebroadcast_every heartbeat_every fails =
     \<lparr>questions = qs, clients = [], active_game = False, current_question_index = 0,
      question_start_time = None, start_threads = 0, game_loops = [], wire = [],
      seq = 0, last_rebroadcast = 0, last_heartbeat = 0,
      REBROADCAST_INTERVAL = rebroadcast_every, HEARTBEAT_INTERVAL = heartbeat_every,
      sendto_fails = fails\<rparr>"

definition next_seq :: "udp_server \<Rightarrow> udp_server \<times> nat" where
  "next_seq s = (s\<lparr>seq := seq s + 1\<rparr>, seq s + 1)"

definition sendto :: "udp_server \<Rightarrow> address \<Rightarrow> payload \<Rightarrow> nat \<Rightarrow> py_error + udp_server" where
  "sendto s a p n =
     (if sendto_fails s a (length (wire s)) then Inl OSError
      else Inr (s\<lparr>wire := wire s @ [Send a p (Some n) True]\<rparr>))"

text \<open>\<^verbatim>\<open>send_message\<close>: the message, with its sequence number, is built before the
  \<^verbatim>\<open>try\<close>; a failed \<^verbatim>\<open>sendto\<close> is printed and dropped.\<close>

definition udp_send_message :: "udp_server \<Rightarrow> address \<Rightarrow> payload \<Rightarrow> udp_server" where
  "udp_send_message s a p =
     (case next_seq s of
        (s1, n) \<Rightarrow>
          (case sendto s1 a p n of
             Inr s2 \<Rightarrow> s2
           | Inl e \<Rightarrow> s1\<lparr>wire := wire s1 @ [Send a p (Some n) False]\<rparr>))"

fun udp_broadcast_loop ::
  "udp_server \<Rightarrow> payload \<Rightarrow> address option \<Rightarrow> address list \<Rightarrow> udp_server" where
  "udp_broadcast_loop s p ex [] = s"
| "udp_broadcast_loop s p ex (a # rest) =
     (if Some a \<noteq> ex then udp_broadcast_loop (udp_send_message s a p) p ex rest
      else udp_broadcast_loop s p ex rest)"

definition udp_broadcast_message :: "udp_server \<Rightarrow> payload \<Rightarrow> address option \<Rightarrow> udp_server" where
  "udp_broadcast_message s p ex = udp_broadcast_loop s p ex (map fst (clients s))"

definition udp_handle_client_register ::
  "udp_server \<Rightarrow> address \<Rightarrow> json \<Rightarrow> py_error + udp_server" where
  "udp_handle_client_register s a data =
     (if active_game s then Inr (udp_send_message s a (ErrorMsg ''Game already in progress''))
      else
        (case py_get data ''name'' (JStr (''Player_'' @ str_nat (snd a))) of
           Inl e \<Rightarrow> Inl e
         | Inr player_name \<Rightarrow>
             (let s1 = s\<lparr>clients := AList.update a
                         \<lparr>name = player_name, score = 0, answers = [], answer_times = []\<rparr>
                         (clients s)\<rparr>
              in Inr (udp_send_message s1 a
                        (Registered player_name (length (clients s1)) None)))))"

definition udp_handle_client_answer ::
  "udp_server \<Rightarrow> address \<Rightarrow> json \<Rightarrow> real \<Rightarrow> py_error + udp_server" where
  "udp_handle_client_answer s a data now =
     (case map_of (clients s) a of
        None \<Rightarrow> Inr s
      | Some client \<Rightarrow>
          if \<not> active_game s \<or> current_question_index s \<ge> length (questions s) then Inr s
          else if length (answers client) > current_question_index s then Inr s
          else
            (case py_get data ''answer'' (JStr []) of
               Inl e \<Rightarrow> Inl e
             | Inr raw \<Rightarrow>
                 (case py_upper_val raw of
                    Inl e \<Rightarrow> Inl e
                  | Inr upper \<Rightarrow>
                      (let submitted = py_strip upper;
                           q = questions s ! current_question_index s;
                           correct_answer = py_strip (answer q);
                           is_correct = (submitted = correct_answer)
                       in case question_start_time s of
                            None \<Rightarrow>
                              Inl (TypeError ''unsupported operand type(s) for -: float and NoneType'')
                          | Some t0 \<Rightarrow>
                              (let time_taken = now - t0;
                                   client1 = client\<lparr>answers := answers client @ [submitted],
                                               answer_times := answer_times client @ [time_taken]\<rparr>;
                                   points = (if is_correct
                                             then max 1 (py_int ((real_of_int QUESTION_TIME_LIMIT - time_taken) / 5) + 1)
                                             else 0);
                                   client2 = (if is_correct
                                              then client1\<lparr>score := score client1 + points\<rparr>
                                              else client1);
                                   s1 = s\<lparr>clients := AList.update a client2 (clients s)\<rparr>
                               in Inr (udp_send_message s1 a
                                         (AnswerResult is_correct correct_answer points (score client2)
                                            (py_round2 time_taken))))))))"

definition udp_leaderboard :: "udp_server \<Rightarrow> entry list" where
  "udp_leaderboard s =
     sort_key (\<lambda>e. - entry_score e)
       (map (\<lambda>(a, client).
               Entry (name client) (score client) (Some (fst a @ '':'' @ str_nat (snd a))))
          (clients s))"

definition udp_end_game :: "udp_server \<Rightarrow> udp_server" where
  "udp_end_game s =
     (let s1 = s\<lparr>active_game := False\<rparr>;
          leaderboard = udp_leaderboard s1;
          s2 = udp_broadcast_message s1 (GameEnd leaderboard) None
      in s2\<lparr>current_question_index := 0\<rparr>)"

definition udp_start_game :: "udp_server \<Rightarrow> udp_server" where
  "udp_start_game s =
     (if length (clients s) = 0 then s
      else if active_game s then s
      else
        (let s1 = s\<lparr>active_game := True, current_question_index := 0\<rparr>;
             s2 = s1\<lparr>clients := map (\<lambda>(a, client).
                       (a, client\<lparr>score := 0, answers := [], answer_times := []\<rparr>))
                     (clients s1)\<rparr>;
             s3 = udp_broadcast_message s2 (GameStart (length (questions s2))) None
         in s3\<lparr>game_loops := game_loops s3 @ [LoopCheck 0]\<rparr>))"

definition udp_handle_request_start_game :: "udp_server \<Rightarrow> address \<Rightarrow> udp_server" where
  "udp_handle_request_start_game s a =
     (if map_of (clients s) a = None then udp_send_message s a (ErrorMsg ''Not registered'')
      else if \<not> active_game s \<and> length (clients s) > 0
      then s\<lparr>start_threads := start_threads s + 1\<rparr>
      else udp_send_message s a (ErrorMsg ''Cannot start game now''))"

text \<open>One step of a \<^verbatim>\<open>game_loop\<close> thread. In the answer window each step is one turn
  of the polling loop, which may send the question again.\<close>

fun udp_game_loop_step :: "udp_server \<Rightarrow> loop_pc \<Rightarrow> real \<Rightarrow> udp_server \<times> loop_pc" where
  "udp_game_loop_step s (LoopCheck i) now =
     (if i < length (questions s)
      then (if \<not> active_game s then (s, LoopEnd) else (s, LoopBegin i (questions s ! i)))
      else (s, LoopEnd))"
| "udp_game_loop_step s (LoopBegin i q) now =
     (s\<lparr>current_question_index := i, question_start_time := Some now\<rparr>, LoopSend i q)"
| "udp_game_loop_step s (LoopSend i q) now =
     ((udp_broadcast_message s
         (QuestionMsg (i + 1) (length (questions s)) (question q) (options q) QUESTION_TIME_LIMIT)
         None)\<lparr>last_rebroadcast := 0\<rparr>,
      LoopWindow i q now)"
| "udp_game_loop_step s (LoopWindow i q start) now =
     (let elapsed = now - start
      in if elapsed \<ge> real_of_int QUESTION_TIME_LIMIT then (s, LoopSettle i q)
         else if elapsed - last_rebroadcast s \<ge> REBROADCAST_INTERVAL s
         then ((udp_broadcast_message s
                  (QuestionMsg (i + 1) (length (questions s)) (question q) (options q)
                     QUESTION_TIME_LIMIT)
                  None)\<lparr>last_rebroadcast := elapsed\<rparr>,
               LoopWindow i q start)
         else (s, LoopWindow i q start))"
| "udp_game_loop_step s (LoopSettle i q) now =
     (if active_game s
      then (udp_broadcast_message s (QuestionEnd (answer q) (i + 1)) None, LoopCheck (i + 1))
      else (s, LoopCheck (i + 1)))"
| "udp_game_loop_step s LoopEnd now = (udp_end_game s, LoopDone)"
| "udp_game_loop_step s LoopDone now = (s, LoopDone)"

text \<open>\<^verbatim>\<open>str(e)\<close> of a caught exception.\<close>

fun error_text :: "py_error \<Rightarrow> string" where
  "error_text (TypeError m) = m"
| "error_text (AttributeError m) = m"
| "error_text (KeyError k) = k"
| "error_text OSError = []"

definition udp_dispatch ::
  "udp_server \<Rightarrow> address \<Rightarrow> json \<Rightarrow> real \<Rightarrow> py_error + udp_server" where
  "udp_dispatch s a message now =
     (case py_get message ''type'' JNull of
        Inl e \<Rightarrow> Inl e
      | Inr msg_type \<Rightarrow>
          (case py_get message ''data'' (JObj []) of
             Inl e \<Rightarrow> Inl e
           | Inr msg_data \<Rightarrow>
               if msg_type = JStr ''register'' then udp_handle_client_register s a msg_data
               else if msg_type = JStr ''answer'' then udp_handle_client_answer s a msg_data now
               else if msg_type = JStr ''start_game'' then Inr (udp_handle_request_start_game s a)
               else if msg_type = JStr ''get_status''
               then Inr (udp_send_message s a
                      (Status (active_game s) (length (clients s)) (current_question_index s)))
               else Inr (udp_send_message s a (ErrorMsg ''Unknown message type''))))"

definition udp_handle_datagram :: "udp_server \<Rightarrow> address \<Rightarrow> inbound \<Rightarrow> real \<Rightarrow> udp_server" where
  "udp_handle_datagram s a m now =
     (case m of
        Undecodable \<Rightarrow> udp_send_message s a (ErrorMsg ''Invalid JSON'')
      | Decoded message \<Rightarrow>
          (case udp_dispatch s a message now of
             Inr s' \<Rightarrow> s'
           | Inl e \<Rightarrow> udp_send_message s a (ErrorMsg (error_text e))))"

text \<open>The head of each turn of \<^verbatim>\<open>run\<close>: the idle heartbeat.\<close>

definition udp_heartbeat :: "udp_server \<Rightarrow> real \<Rightarrow> udp_server" where
  "udp_heartbeat s now =
     (if now - last_heartbeat s \<ge> HEARTBEAT_INTERVAL s \<and> clients s \<noteq> []
      then (udp_broadcast_message s Heartbeat None)\<lparr>last_heartbeat := now\<rparr>
      else s)"

text \<open>
  The steps of the connectionless server: a turn of \<^verbatim>\<open>run\<close> whose
  \<^verbatim>\<open>recvfrom\<close> times out, a turn that receives a datagram (the first clock reading is
  the heartbeat's, the second the handler's), a started \<^verbatim>\<open>start_game\<close> thread, a
  step of a \<^verbatim>\<open>game_loop\<close> thread.
\<close>

datatype udp_event = Timeout real | Datagram real address inbound real
  | UdpStartThread | UdpLoopStep nat real

fun udp_step :: "udp_server \<Rightarrow> udp_event \<Rightarrow> udp_server" where
  "udp_step s (Timeout now) = udp_heartbeat s now"
| "udp_step s (Datagram now a m now') = udp_handle_datagram (udp_heartbeat s now) a m now'"
| "udp_step s UdpStartThread =
     (if start_threads s > 0 then udp_start_game (s\<lparr>start_threads := start_threads s - 1\<rparr>)
      else s)"
| "udp_step s (UdpLoopStep k now) =
     (if k < length (game_loops s)
      then (case udp_game_loop_step s (game_loops s ! k) now of
              (s', pc') \<Rightarrow> s'\<lparr>game_loops := (game_loops s')[k := pc']\<rparr>)
      else s)"

fun udp_run :: "udp_server \<Rightarrow> udp_event list \<Rightarrow> udp_server" where
  "udp_run s [] = s"
| "udp_run s (e # es) = udp_run (udp_step s e) es"

section \<open>Scenarios\<close>

text \<open>What the clients put on the wire: an object with the message type and its data.\<close>

definition client_message :: "string \<Rightarrow> (string \<times> json) list \<Rightarrow> inbound" where
  "client_message message_type data =
     Decoded (JObj [(''type'', JStr message_type), (''data'', JObj data)])"

text \<open>A bank of two questions, and a game between Alice and Bob that has reached the
  first round: the connection-oriented one waits to settle round 0, the connectionless one
  is inside its answer window. Both rounds started at clock reading 100.\<close>

definition bank2 :: "quiz_question list" where
  "bank2 =
     [\<lparr>question = ''2 + 2 = ?'', options = [''A) 4'', ''B) 5''], answer = ''A''\<rparr>,
      \<lparr>question = ''3 + 3 = ?'', options = [''A) 5'', ''B) 6''], answer = ''B''\<rparr>]"

definition tcp_round0 :: tcp_server where
  "tcp_round0 =
     tcp_run (tcp_init bank2 (\<lambda>c n. False))
       [Accept 10 (''10.0.0.1'', 4000), Accept 11 (''10.0.0.2'', 4001),
        Recv 0 (client_message ''register'' [(''name'', JStr ''Alice'')]) 0,
        Recv 1 (client_message ''register'' [(''name'', JStr ''Bob'')]) 0,
        Recv 0 (client_message ''start_game'' []) 0,
        TcpStartThread, TcpLoopStep 0 100, TcpLoopStep 0 100, TcpLoopStep 0 100]"

definition udp_round0 :: udp_server where
  "udp_round0 =
     udp_run (udp_init bank2 2 2 (\<lambda>a n. False))
       [Datagram 0 (''10.0.0.1'', 5000) (client_message ''register'' [(''name'', JStr ''Alice'')]) 0,
        Datagram 0 (''10.0.0.2'', 5001) (client_message ''register'' [(''name'', JStr ''Bob'')]) 0,
        Datagram 0 (''10.0.0.1'', 5000) (client_message ''start_game'' []) 0,
        UdpStartThread, UdpLoopStep 0 100, UdpLoopStep 0 100, UdpLoopStep 0 100]"

text \<open>The same games later: round 0 settled and the loop in its pause before the next
  round; then round 1 started, at clock reading 112, with nobody having answered round 0.\<close>

definition tcp_pause0 :: tcp_server where
  "tcp_pause0 = tcp_run tcp_round0 [TcpLoopStep 0 110]"

definition tcp_round1 :: tcp_server where
  "tcp_round1 = tcp_run tcp_pause0 [TcpLoopStep 0 112, TcpLoopStep 0 112]"

definition udp_round1 :: udp_server where
  "udp_round1 =
     udp_run udp_round0 [UdpLoopStep 0 110, UdpLoopStep 0 110, UdpLoopStep 0 112, UdpLoopStep 0 112]"

text \<open>Two accepted connections on sockets 10 and 11, in a server whose writes to socket 10
  always fail.\<close>

definition tcp_two_connected :: tcp_server where
  "tcp_two_connected =
     tcp_run (tcp_init [] (\<lambda>c n. c = 10))
       [Accept 10 (''10.0.0.1'', 4000), Accept 11 (''10.0.0.2'', 4001)]"

section \<open>Notions used to state the properties\<close>

text \<open>The sockets a broadcast writes to: the registry snapshot without the excluded id.\<close>

definition tcp_targets :: "nat option \<Rightarrow> (nat \<times> tcp_client) list \<Rightarrow> nat list" where
  "tcp_targets ex cs = map (\<lambda>(k, cl). conn cl) (filter (\<lambda>(k, cl). Some k \<noteq> ex) cs)"

text \<open>The scoring rule in the specification's words:
  \<^verbatim>\<open>max(1, floor((time_limit - elapsed) / 5) + 1)\<close>.\<close>

definition spec_points :: "real \<Rightarrow> real \<Rightarrow> int" where
  "spec_points time_limit e = max 1 (\<lfloor>(time_limit - e) / 5\<rfloor> + 1)"

text \<open>A submission passes the three guards of \<^verbatim>\<open>handle_client_answer\<close>: the sender is
  in the registry, a game is active with the round index inside the bank, and the sender's
  answer list is not longer than the round index.\<close>

definition answer_open ::
  "('k, 'z player_scheme, 'd, 'y) quiz_server_scheme \<Rightarrow> 'k \<Rightarrow> 'z player_scheme \<Rightarrow> bool" where
  "answer_open s k client \<longleftrightarrow>
     map_of (clients s) k = Some client \<and> active_game s \<and>
     current_question_index s < length (questions s) \<and>
     length (answers client) \<le> current_question_index s"

text \<open>The points an accepted answer earns after \<open>e\<close> seconds: the scoring rule up to
  the time limit, one point for a correct answer after it, nothing for a wrong answer.\<close>

definition awarded :: "bool \<Rightarrow> real \<Rightarrow> int" where
  "awarded correct e =
     (if correct then (if e \<le> real_of_int QUESTION_TIME_LIMIT
                       then spec_points (real_of_int QUESTION_TIME_LIMIT) e else 1)
      else 0)"

section \<open>Properties of the connection-oriented broadcast\<close>

lemma tcp_send_message_eq:
  "tcp_send_message s c p =
     Inr (s\<lparr>wire := wire s @ [Send c p None (\<not> (c \<in> set (closed s) \<or> sendall_fails s c (length (wire s))))]\<rparr>)"
  by (simp add: tcp_send_message_def sendall_def)

lemma tcp_broadcast_loop_eq:
  "\<exists>w. tcp_broadcast_loop s p ex cs d = (s\<lparr>wire := wire s @ w\<rparr>, d) \<and>
       map dest w = tcp_targets ex cs \<and> (\<forall>m \<in> set w. body m = p \<and> seq_no m = None)"
proof (induction cs arbitrary: s)
  case Nil
  show ?case by (simp add: tcp_targets_def)
next
  case (Cons a cs)
  obtain k cl where a: "a = (k, cl)" by (cases a)
  show ?case
  proof (cases "Some k \<noteq> ex")
    case True
    let ?m = "Send (conn cl) p None (\<not> (conn cl \<in> set (closed s) \<or> sendall_fails s (conn cl) (length (wire s))))"
    let ?s1 = "s\<lparr>wire := wire s @ [?m]\<rparr>"
    from Cons.IH [of ?s1] obtain w where
      w: "tcp_broadcast_loop ?s1 p ex cs d = (?s1\<lparr>wire := wire ?s1 @ w\<rparr>, d)"
         "map dest w = tcp_targets ex cs" "\<forall>m \<in> set w. body m = p \<and> seq_no m = None"
      by blast
    have "tcp_broadcast_loop s p ex (a # cs) d = (s\<lparr>wire := wire s @ (?m # w)\<rparr>, d)"
      using True w(1) by (simp add: a tcp_send_message_eq)
    moreover have "map dest (?m # w) = tcp_targets ex (a # cs)"
      using True w(2) by (simp add: a tcp_targets_def)
    moreover have "\<forall>m \<in> set (?m # w). body m = p \<and> seq_no m = None"
      using w(3) by simp
    ultimately show ?thesis by blast
  next
    case False
    from Cons.IH [of s] obtain w where
      w: "tcp_broadcast_loop s p ex cs d = (s\<lparr>wire := wire s @ w\<rparr>, d)"
         "map dest w = tcp_targets ex cs" "\<forall>m \<in> set w. body m = p \<and> seq_no m = None"
      by blast
    from False w show ?thesis by (auto simp: a tcp_targets_def)
  qed
qed

lemma tcp_broadcast_message_eq:
  "\<exists>w. tcp_broadcast_message s p ex = s\<lparr>wire := wire s @ w\<rparr> \<and>
       map dest w = tcp_targets ex (clients s) \<and> (\<forall>m \<in> set w. body m = p \<and> seq_no m = None)"
proof -
  from tcp_broadcast_loop_eq [of s p ex "clients s" "[]"] obtain w where
    w: "tcp_broadcast_loop s p ex (clients s) [] = (s\<lparr>wire := wire s @ w\<rparr>, [])"
       "map dest w = tcp_targets ex (clients s)" "\<forall>m \<in> set w. body m = p \<and> seq_no m = None"
    by blast
  from w(1) have "tcp_broadcast_message s p ex = s\<lparr>wire := wire s @ w\<rparr>"
    by (simp add: tcp_broadcast_message.simps)
  with w(2,3) show ?thesis by blast
qed

lemma tcp_broadcast_message_frame [simp]:
  "questions (tcp_broadcast_message s p ex) = questions s"
  "clients (tcp_broadcast_message s p ex) = clients s"
  "active_game (tcp_broadcast_message s p ex) = active_game s"
  "current_question_index (tcp_broadcast_message s p ex) = current_question_index s"
  "question_start_time (tcp_broadcast_message s p ex) = question_start_time s"
  "start_threads (tcp_broadcast_message s p ex) = start_threads s"
  "game_loops (tcp_broadcast_message s p ex) = game_loops s"
  "connection_counter (tcp_broadcast_message s p ex) = connection_counter s"
  "host_conn_id (tcp_broadcast_message s p ex) = host_conn_id s"
  "closed (tcp_broadcast_message s p ex) = closed s"
  "sendall_fails (tcp_broadcast_message s p ex) = sendall_fails s"
  using tcp_broadcast_message_eq [of s p ex] by auto


lemma hd_sort_Min: "xs \<noteq> [] \<Longrightarrow> hd (sort xs) = Min (set xs)"
proof -
  assume ne: "xs \<noteq> []"
  then have "sort xs \<noteq> []" by (metis length_0_conv length_sort)
  then obtain y ys where ys: "sort xs = y # ys" by (cases "sort xs") auto
  have "sorted (sort xs)" by simp
  then have "sorted (y # ys)" by (simp add: ys)
  then have "\<forall>z \<in> set (y # ys). y \<le> z" by auto
  moreover have "set (sort xs) = set xs" by simp
  then have "set (y # ys) = set xs" by (simp add: ys)
  ultimately have "Min (set xs) = y"
    by (intro Min_eqI) auto
  then show ?thesis by (simp add: ys)
qed



section \<open>Evaluating the scenarios\<close>

lemmas tcp_eval = tcp_init_def tcp_accept_def Let_def tcp_handle_line_def tcp_dispatch_def
  tcp_handle_client_register_def tcp_handle_client_answer_def tcp_handle_request_start_game_def
  tcp_start_game_def tcp_end_game_def tcp_leaderboard_def
  tcp_broadcast_message.simps tcp_remove_client.simps tcp_send_message_def sendall_def
  client_message_def bank2_def QUESTION_TIME_LIMIT_def

lemmas udp_eval = udp_init_def Let_def udp_handle_datagram_def udp_dispatch_def udp_heartbeat_def
  udp_handle_client_register_def udp_handle_client_answer_def udp_handle_request_start_game_def
  udp_start_game_def udp_end_game_def udp_leaderboard_def
  udp_broadcast_message_def udp_send_message_def next_seq_def sendto_def
  client_message_def bank2_def QUESTION_TIME_LIMIT_def

lemmas str_eval = py_strip_def py_upper_def upper_char_def py_isspace_def char_of_eq_iff

lemma tcp_round0_fields:
  "questions tcp_round0 = bank2" "current_question_index tcp_round0 = 0"
  "question_start_time tcp_round0 = Some 100" "active_game tcp_round0"
  "clients tcp_round0 =
     [(0, \<lparr>name = JStr ''Alice'', score = 0, answers = [], answer_times = [], conn = 10, addr = (''10.0.0.1'', 4000)\<rparr>),
      (1, \<lparr>name = JStr ''Bob'', score = 0, answers = [], answer_times = [], conn = 11, addr = (''10.0.0.2'', 4001)\<rparr>)]"
  by (simp_all add: tcp_round0_def tcp_eval)

lemma udp_round0_fields:
  "questions udp_round0 = bank2" "current_question_index udp_round0 = 0"
  "question_start_time udp_round0 = Some 100" "active_game udp_round0"
  "clients udp_round0 =
     [((''10.0.0.1'', 5000), \<lparr>name = JStr ''Alice'', score = 0, answers = [], answer_times = []\<rparr>),
      ((''10.0.0.2'', 5001), \<lparr>name = JStr ''Bob'', score = 0, answers = [], answer_times = []\<rparr>)]"
  by (simp_all add: udp_round0_def udp_eval)

lemma tcp_pause0_fields:
  "questions tcp_pause0 = bank2" "current_question_index tcp_pause0 = 0"
  "question_start_time tcp_pause0 = Some 100" "active_game tcp_pause0"
  "clients tcp_pause0 = clients tcp_round0" "game_loops tcp_pause0 = [LoopCheck 1]"
  "sendall_fails tcp_pause0 = (\<lambda>c n. False)" "closed tcp_pause0 = []"
  by (simp_all add: tcp_pause0_def tcp_round0_def tcp_eval)

lemma tcp_round1_fields:
  "questions tcp_round1 = bank2" "current_question_index tcp_round1 = 1"
  "question_start_time tcp_round1 = Some 112" "active_game tcp_round1"
  "clients tcp_round1 = clients tcp_round0"
  "sendall_fails tcp_round1 = (\<lambda>c n. False)" "closed tcp_round1 = []"
  by (simp_all add: tcp_round1_def tcp_pause0_def tcp_round0_def tcp_eval)

lemma udp_round1_fields:
  "questions udp_round1 = bank2" "current_question_index udp_round1 = 1"
  "question_start_time udp_round1 = Some 112" "active_game udp_round1"
  "clients udp_round1 = clients udp_round0"
  "sendto_fails udp_round1 = (\<lambda>c n. False)" "last_heartbeat udp_round1 = 0"
  "HEARTBEAT_INTERVAL udp_round1 = 2"
  by (simp_all add: udp_round1_def udp_round0_def udp_eval)

section \<open>Properties of the answer handlers\<close>

lemma points_eq:
  "max 1 (py_int ((real_of_int QUESTION_TIME_LIMIT - e) / 5) + 1) = awarded True e"
proof (cases "e \<le> real_of_int QUESTION_TIME_LIMIT")
  case True
  then have "0 \<le> (real_of_int QUESTION_TIME_LIMIT - e) / 5" by simp
  then show ?thesis using True by (simp add: py_int_def awarded_def spec_points_def)
next
  case False
  then have "(real_of_int QUESTION_TIME_LIMIT - e) / 5 < 0" by simp
  then have "\<lceil>(real_of_int QUESTION_TIME_LIMIT - e) / 5\<rceil> \<le> 0"
    by (metis ceiling_le_zero less_eq_real_def)
  then show ?thesis using False \<open>(real_of_int QUESTION_TIME_LIMIT - e) / 5 < 0\<close>
    by (simp add: py_int_def awarded_def)
qed

lemma tcp_answer_accepted:
  assumes "answer_open s conn_id client" and "question_start_time s = Some t0"
    and "py_get data ''answer'' (JStr []) = Inr (JStr txt)"
  shows "tcp_handle_client_answer s conn_id c data now =
     tcp_send_message
       (s\<lparr>clients := AList.update conn_id
            (client\<lparr>answers := answers client @ [py_strip (py_upper txt)],
               answer_times := answer_times client @ [now - t0],
               score := score client +
                 awarded (py_strip (py_upper txt) =
                    py_strip (answer (questions s ! current_question_index s))) (now - t0)\<rparr>)
            (clients s)\<rparr>)
       c (AnswerResult
            (py_strip (py_upper txt) = py_strip (answer (questions s ! current_question_index s)))
            (py_strip (answer (questions s ! current_question_index s)))
            (awarded (py_strip (py_upper txt) =
                    py_strip (answer (questions s ! current_question_index s))) (now - t0))
            (score client + awarded (py_strip (py_upper txt) =
                    py_strip (answer (questions s ! current_question_index s))) (now - t0))
            (py_round2 (now - t0)))"
proof (cases "py_strip (py_upper txt) = py_strip (answer (questions s ! current_question_index s))")
  case True
  with assms show ?thesis
    by (simp add: tcp_handle_client_answer_def answer_open_def Let_def points_eq)
next
  case False
  with assms show ?thesis
    by (simp add: tcp_handle_client_answer_def answer_open_def Let_def awarded_def)
qed


lemma udp_send_message_eq:
  "udp_send_message s a p =
     s\<lparr>seq := seq s + 1,
       wire := wire s @ [Send a p (Some (seq s + 1)) (\<not> sendto_fails s a (length (wire s)))]\<rparr>"
  by (simp add: udp_send_message_def next_seq_def sendto_def)

lemma udp_answer_accepted:
  assumes "answer_open s a client" and "question_start_time s = Some t0"
    and "py_get data ''answer'' (JStr []) = Inr (JStr txt)"
  shows "udp_handle_client_answer s a data now =
     Inr (udp_send_message
       (s\<lparr>clients := AList.update a
            (client\<lparr>answers := answers client @ [py_strip (py_upper txt)],
               answer_times := answer_times client @ [now - t0],
               score := score client +
                 awarded (py_strip (py_upper txt) =
                    py_strip (answer (questions s ! current_question_index s))) (now - t0)\<rparr>)
            (clients s)\<rparr>)
       a (AnswerResult
            (py_strip (py_upper txt) = py_strip (answer (questions s ! current_question_index s)))
            (py_strip (answer (questions s ! current_question_index s)))
            (awarded (py_strip (py_upper txt) =
                    py_strip (answer (questions s ! current_question_index s))) (now - t0))
            (score client + awarded (py_strip (py_upper txt) =
                    py_strip (answer (questions s ! current_question_index s))) (now - t0))
            (py_round2 (now - t0))))"
proof (cases "py_strip (py_upper txt) = py_strip (answer (questions s ! current_question_index s))")
  case True
  with assms show ?thesis
    by (simp add: udp_handle_client_answer_def answer_open_def Let_def points_eq)
next
  case False
  with assms show ?thesis
    by (simp add: udp_handle_client_answer_def answer_open_def Let_def awarded_def)
qed

section \<open>Normalising a submitted letter\<close>

lemma upper_char_space: "py_isspace c \<Longrightarrow> upper_char c = c"
  by (auto simp: py_isspace_def upper_char_def Let_def)

lemma py_upper_spaces: "\<forall>c \<in> set ws. py_isspace c \<Longrightarrow> py_upper ws = ws"
  by (induction ws) (auto simp: py_upper_def upper_char_space)

lemma upper_char_capital:
  assumes "(65::nat) \<le> of_char L" and "of_char L \<le> (90::nat)"
  shows "upper_char L = L" and "upper_char (char_of (of_char L + (32::nat))) = L"
    and "\<not> py_isspace L"
proof -
  show "upper_char L = L" using assms by (simp add: upper_char_def)
  have "(of_char L + 32) mod 256 = (of_char L + 32 :: nat)" using assms by simp
  then have "of_char (char_of (of_char L + (32::nat))) = (of_char L + 32 :: nat)"
    by simp
  then show "upper_char (char_of (of_char L + (32::nat))) = L"
    using assms by (simp add: upper_char_def)
  show "\<not> py_isspace L" using assms by (simp add: py_isspace_def Let_def)
qed

lemma dropWhile_all: "\<forall>c \<in> set ws. P c \<Longrightarrow> dropWhile P ws = []"
  by (induction ws) auto

lemma py_strip_padded:
  assumes "\<forall>c \<in> set pre. py_isspace c" and "\<forall>c \<in> set post. py_isspace c"
    and "\<not> py_isspace L"
  shows "py_strip (pre @ [L] @ post) = [L]"
proof -
  have "dropWhile py_isspace (pre @ L # post) = L # post"
    using assms(1,3) by (simp add: dropWhile_append3 dropWhile_all)
  moreover have "dropWhile py_isspace (rev post @ [L]) = [L]"
    using assms(2,3) by (simp add: dropWhile_append3 dropWhile_all)
  ultimately show ?thesis by (simp add: py_strip_def)
qed

lemma normalised_letter:
  assumes "(65::nat) \<le> of_char L" and "of_char L \<le> (90::nat)"
    and "\<forall>c \<in> set pre. py_isspace c" and "\<forall>c \<in> set post. py_isspace c"
    and "x = L \<or> x = char_of (of_char L + (32::nat))"
  shows "py_strip (py_upper (pre @ [x] @ post)) = [L]" and "py_strip [L] = [L]"
proof -
  have ux: "upper_char x = L" using assms(5) upper_char_capital(1,2) [OF assms(1,2)] by auto
  have "py_upper (pre @ [x] @ post) = pre @ [L] @ post"
    using py_upper_spaces [OF assms(3)] py_upper_spaces [OF assms(4)] ux
    by (simp add: py_upper_def)
  then show "py_strip (py_upper (pre @ [x] @ post)) = [L]"
    using py_strip_padded [OF assms(3,4) upper_char_capital(3) [OF assms(1,2)]] by simp
  show "py_strip [L] = [L]"
    using py_strip_padded [of "[]" "[]" L] upper_char_capital(3) [OF assms(1,2)] by simp
qed

lemma awarded_correct_pos: "1 \<le> awarded True e"
  by (simp add: awarded_def spec_points_def)

section \<open>Answers and scoring\<close>

text \<open>
  C1. The guard against a second answer compares the length of the player's answer list
  with the round index, so it only recognises a player who answered every earlier round.
  In the game of Alice and Bob, nobody answered round 0; in round 1 Bob sends the correct
  letter twice. Both submissions are recorded and both score, in either transport variant:
  Bob ends with two recorded answers and 4 points.
\<close>

theorem repeated_answer_counted_twice:
  "current_question_index tcp_round1 = 1 \<and>
   map (\<lambda>(k, cl). (answers cl, score cl))
     (clients (tcp_run tcp_round1
        [Recv 1 (client_message ''answer'' [(''answer'', JStr ''B'')]) 113,
         Recv 1 (client_message ''answer'' [(''answer'', JStr ''B'')]) 114]))
     = [([], 0), ([''B'', ''B''], 4)] \<and>
   current_question_index udp_round1 = 1 \<and>
   map (\<lambda>(k, cl). (answers cl, score cl))
     (clients (udp_run udp_round1
        [Datagram 113 (''10.0.0.2'', 5001) (client_message ''answer'' [(''answer'', JStr ''B'')]) 113,
         Datagram 114 (''10.0.0.2'', 5001) (client_message ''answer'' [(''answer'', JStr ''B'')]) 114]))
     = [([], 0), ([''B'', ''B''], 4)]"
  by (simp add: tcp_round1_fields tcp_round0_fields udp_round1_fields udp_round0_fields
      tcp_handle_line_def tcp_dispatch_def tcp_handle_client_answer_def
      udp_handle_datagram_def udp_dispatch_def udp_handle_client_answer_def udp_heartbeat_def
      udp_broadcast_message_def udp_send_message_def next_seq_def sendto_def
      client_message_def bank2_def Let_def str_eval
      tcp_send_message_def sendall_def py_int_def QUESTION_TIME_LIMIT_def)

text \<open>
  C2 (amended). An answer that passes the handler's guards, \<open>e\<close> seconds after the
  round started, earns \<open>max 1 (\<lfloor>(time_limit - e) / 5\<rfloor> + 1)\<close> points if it is correct and
  \<open>e \<le> time_limit\<close>, exactly one point if it is correct and \<open>e > time_limit\<close>, and
  nothing if it is wrong; the points are added to the player's score and reported in the
  reply. The handlers have no test on the elapsed time.
\<close>

theorem accepted_answer_points:
  assumes "answer_open s conn_id client" and "question_start_time s = Some t0"
    and "answer_open u a uclient" and "question_start_time u = Some t1"
    and "py_get data ''answer'' (JStr []) = Inr (JStr txt)"
  shows
    "(\<exists>s' client'. tcp_handle_client_answer s conn_id c data now = Inr s' \<and>
        map_of (clients s') conn_id = Some client' \<and>
        score client' = score client + awarded (py_strip (py_upper txt) =
            py_strip (answer (questions s ! current_question_index s))) (now - t0) \<and>
        body (last (wire s')) =
          AnswerResult
            (py_strip (py_upper txt) = py_strip (answer (questions s ! current_question_index s)))
            (py_strip (answer (questions s ! current_question_index s)))
            (awarded (py_strip (py_upper txt) =
                py_strip (answer (questions s ! current_question_index s))) (now - t0))
            (score client') (py_round2 (now - t0))) \<and>
     (\<exists>u' client'. udp_handle_client_answer u a data now = Inr u' \<and>
        map_of (clients u') a = Some client' \<and>
        score client' = score uclient + awarded (py_strip (py_upper txt) =
            py_strip (answer (questions u ! current_question_index u))) (now - t1) \<and>
        body (last (wire u')) =
          AnswerResult
            (py_strip (py_upper txt) = py_strip (answer (questions u ! current_question_index u)))
            (py_strip (answer (questions u ! current_question_index u)))
            (awarded (py_strip (py_upper txt) =
                py_strip (answer (questions u ! current_question_index u))) (now - t1))
            (score client') (py_round2 (now - t1)))"
proof -
  have tcp: "\<exists>s' client'. tcp_handle_client_answer s conn_id c data now = Inr s' \<and>
        map_of (clients s') conn_id = Some client' \<and>
        score client' = score client + awarded (py_strip (py_upper txt) =
            py_strip (answer (questions s ! current_question_index s))) (now - t0) \<and>
        body (last (wire s')) =
          AnswerResult
            (py_strip (py_upper txt) = py_strip (answer (questions s ! current_question_index s)))
            (py_strip (answer (questions s ! current_question_index s)))
            (awarded (py_strip (py_upper txt) =
                py_strip (answer (questions s ! current_question_index s))) (now - t0))
            (score client') (py_round2 (now - t0))"
    using tcp_answer_accepted [OF assms(1,2,5), of c now]
    by (simp add: tcp_send_message_eq update_conv')
  have udp: "\<exists>u' client'. udp_handle_client_answer u a data now = Inr u' \<and>
        map_of (clients u') a = Some client' \<and>
        score client' = score uclient + awarded (py_strip (py_upper txt) =
            py_strip (answer (questions u ! current_question_index u))) (now - t1) \<and>
        body (last (wire u')) =
          AnswerResult
            (py_strip (py_upper txt) = py_strip (answer (questions u ! current_question_index u)))
            (py_strip (answer (questions u ! current_question_index u)))
            (awarded (py_strip (py_upper txt) =
                py_strip (answer (questions u ! current_question_index u))) (now - t1))
            (score client') (py_round2 (now - t1))"
    using udp_answer_accepted [OF assms(3,4,5), of now]
    by (simp add: udp_send_message_eq update_conv')
  from tcp udp show ?thesis by blast
qed

theorem accepted_answer_points_witness:
  "(\<exists>s' client'. tcp_handle_client_answer tcp_round0 0 10 (JObj [(''answer'', JStr ''a'')]) 102 = Inr s' \<and>
      map_of (clients s') 0 = Some client' \<and> score client' = 2 \<and>
      body (last (wire s')) = AnswerResult True ''A'' 2 2 2) \<and>
   (\<exists>u' client'. udp_handle_client_answer udp_round0 (''10.0.0.1'', 5000) (JObj [(''answer'', JStr ''a'')]) 102 = Inr u' \<and>
      map_of (clients u') (''10.0.0.1'', 5000) = Some client' \<and> score client' = 2 \<and>
      body (last (wire u')) = AnswerResult True ''A'' 2 2 2)"
proof -
  have h1: "answer_open tcp_round0 0
      \<lparr>name = JStr ''Alice'', score = 0, answers = [], answer_times = [], conn = 10, addr = (''10.0.0.1'', 4000)\<rparr>"
    by (simp add: answer_open_def tcp_round0_fields bank2_def)
  have h2: "question_start_time tcp_round0 = Some 100"
    by (simp add: tcp_round0_fields)
  have h3: "answer_open udp_round0 (''10.0.0.1'', 5000)
      \<lparr>name = JStr ''Alice'', score = 0, answers = [], answer_times = []\<rparr>"
    by (simp add: answer_open_def udp_round0_fields bank2_def)
  have h4: "question_start_time udp_round0 = Some 100"
    by (simp add: udp_round0_fields)
  have h5: "py_get (JObj [(''answer'', JStr ''a'')]) ''answer'' (JStr []) = Inr (JStr ''a'')"
    by simp
  have q: "questions tcp_round0 ! current_question_index tcp_round0 = bank2 ! 0"
     "questions udp_round0 ! current_question_index udp_round0 = bank2 ! 0"
    by (simp_all add: tcp_round0_fields udp_round0_fields)
  have aw: "awarded True 2 = 2"
    by (simp add: awarded_def spec_points_def QUESTION_TIME_LIMIT_def)
  have r: "py_round2 2 = 2" by (simp add: py_round2_def)
  from accepted_answer_points [OF h1 h2 h3 h4 h5, of 10 102] show ?thesis
    by (auto simp: q bank2_def str_eval aw r)
qed


text \<open>
  C2 as stated fails: in the pause after round 0 the game is still active on that round.
  Alice's correct answer arrives 11 seconds after the round started, with a time limit of
  10, and her score goes from 0 to 1.
\<close>

theorem late_answer_scores:
  "active_game tcp_pause0 \<and> question_start_time tcp_pause0 = Some 100 \<and>
   map (\<lambda>(k, cl). score cl) (clients tcp_pause0) = [0, 0] \<and>
   map (\<lambda>(k, cl). score cl)
     (clients (tcp_step tcp_pause0
        (Recv 0 (client_message ''answer'' [(''answer'', JStr ''A'')]) 111))) = [1, 0]"
  by (simp add: tcp_pause0_fields tcp_round0_fields tcp_handle_line_def tcp_dispatch_def
      tcp_handle_client_answer_def client_message_def bank2_def Let_def str_eval
      tcp_send_message_def sendall_def py_int_def QUESTION_TIME_LIMIT_def)


text \<open>
  C10. The submitted text is upper-cased and stripped before it is compared with the
  stripped correct letter of the round. So when the bank stores the correct letter as one
  capital letter \<open>L\<close>, a submission made of \<open>L\<close> or of its lowercase form, with any
  whitespace before and after it, is scored as correct in both variants: the reply says
  correct, at least one point is awarded and added, and the recorded answer is \<open>L\<close>.
\<close>

theorem padded_or_lowercase_letter_correct:
  assumes "(65::nat) \<le> of_char L" and "of_char L \<le> (90::nat)"
    and "\<forall>c \<in> set pre. py_isspace c" and "\<forall>c \<in> set post. py_isspace c"
    and "x = L \<or> x = char_of (of_char L + (32::nat))"
    and "py_get data ''answer'' (JStr []) = Inr (JStr (pre @ [x] @ post))"
    and "answer_open s conn_id client" and "question_start_time s = Some t0"
    and "answer (questions s ! current_question_index s) = [L]"
    and "answer_open u a uclient" and "question_start_time u = Some t1"
    and "answer (questions u ! current_question_index u) = [L]"
  shows
    "(\<exists>s' points total time_taken.
        tcp_handle_client_answer s conn_id c data now = Inr s' \<and>
        body (last (wire s')) = AnswerResult True [L] points total time_taken \<and> 1 \<le> points \<and>
        map_of (clients s') conn_id = Some (client\<lparr>answers := answers client @ [[L]],
            answer_times := answer_times client @ [now - t0], score := score client + points\<rparr>)) \<and>
     (\<exists>u' points total time_taken.
        udp_handle_client_answer u a data now = Inr u' \<and>
        body (last (wire u')) = AnswerResult True [L] points total time_taken \<and> 1 \<le> points \<and>
        map_of (clients u') a = Some (uclient\<lparr>answers := answers uclient @ [[L]],
            answer_times := answer_times uclient @ [now - t1], score := score uclient + points\<rparr>))"
proof -
  have n: "py_strip (py_upper (pre @ x # post)) = [L]" "py_strip [L] = [L]"
    using normalised_letter [OF assms(1-5)] by simp_all
  have "\<exists>s' points total time_taken.
        tcp_handle_client_answer s conn_id c data now = Inr s' \<and>
        body (last (wire s')) = AnswerResult True [L] points total time_taken \<and> 1 \<le> points \<and>
        map_of (clients s') conn_id = Some (client\<lparr>answers := answers client @ [[L]],
            answer_times := answer_times client @ [now - t0], score := score client + points\<rparr>)"
    using tcp_answer_accepted [OF assms(7,8,6), of c now] awarded_correct_pos [of "now - t0"]
    by (simp add: n assms(9) tcp_send_message_eq update_conv')
  moreover have "\<exists>u' points total time_taken.
        udp_handle_client_answer u a data now = Inr u' \<and>
        body (last (wire u')) = AnswerResult True [L] points total time_taken \<and> 1 \<le> points \<and>
        map_of (clients u') a = Some (uclient\<lparr>answers := answers uclient @ [[L]],
            answer_times := answer_times uclient @ [now - t1], score := score uclient + points\<rparr>)"
    using udp_answer_accepted [OF assms(10,11,6), of now] awarded_correct_pos [of "now - t1"]
    by (simp add: n assms(12) udp_send_message_eq update_conv')
  ultimately show ?thesis by blast
qed

theorem padded_or_lowercase_letter_correct_witness:
  "(\<exists>s' points total time_taken.
      tcp_handle_client_answer tcp_round0 0 10 (JObj [(''answer'', JStr '' a  '')]) 103 = Inr s' \<and>
      body (last (wire s')) = AnswerResult True ''A'' points total time_taken \<and> 1 \<le> points) \<and>
   (\<exists>u' points total time_taken.
      udp_handle_client_answer udp_round0 (''10.0.0.1'', 5000) (JObj [(''answer'', JStr '' a  '')]) 103 = Inr u' \<and>
      body (last (wire u')) = AnswerResult True ''A'' points total time_taken \<and> 1 \<le> points)"
proof -
  have h1: "(65::nat) \<le> of_char (CHR ''A'')" and h2: "of_char (CHR ''A'') \<le> (90::nat)"
    by simp_all
  have h3: "\<forall>c \<in> set '' ''. py_isspace c" and h4: "\<forall>c \<in> set ''  ''. py_isspace c"
    by (simp_all add: py_isspace_def)
  have "char_of (97::nat) = CHR ''a''"
    by (simp add: char_of_eq_iff)
  then have h5: "CHR ''a'' = CHR ''A'' \<or> CHR ''a'' = char_of (of_char (CHR ''A'') + (32::nat))"
    by simp
  have h6: "py_get (JObj [(''answer'', JStr '' a  '')]) ''answer'' (JStr []) =
      Inr (JStr ('' '' @ [CHR ''a''] @ ''  ''))"
    by simp
  have h7: "answer_open tcp_round0 0
      \<lparr>name = JStr ''Alice'', score = 0, answers = [], answer_times = [], conn = 10, addr = (''10.0.0.1'', 4000)\<rparr>"
    by (simp add: answer_open_def tcp_round0_fields bank2_def)
  have h8: "question_start_time tcp_round0 = Some 100"
    by (simp add: tcp_round0_fields)
  have h9: "answer (questions tcp_round0 ! current_question_index tcp_round0) = [CHR ''A'']"
    by (simp add: tcp_round0_fields bank2_def)
  have h10: "answer_open udp_round0 (''10.0.0.1'', 5000)
      \<lparr>name = JStr ''Alice'', score = 0, answers = [], answer_times = []\<rparr>"
    by (simp add: answer_open_def udp_round0_fields bank2_def)
  have h11: "question_start_time udp_round0 = Some 100"
    by (simp add: udp_round0_fields)
  have h12: "answer (questions udp_round0 ! current_question_index udp_round0) = [CHR ''A'']"
    by (simp add: udp_round0_fields bank2_def)
  from padded_or_lowercase_letter_correct [OF h1 h2 h3 h4 h5 h6 h7 h8 h9 h10 h11 h12, of 10 103]
  show ?thesis by blast
qed


section \<open>Broadcast failures and host election\<close>

text \<open>
  C3. A broadcast is meant to drop the clients whose write failed and to go on with the
  others. It does go on, but \<^verbatim>\<open>send_message\<close> swallows the exception, so the
  \<^verbatim>\<open>except\<close> clause of \<^verbatim>\<open>broadcast_message\<close> never runs: with two clients and a
  socket 10 that always fails, the write to socket 10 fails, the write to socket 11 goes
  through, and both clients are still registered afterwards.
\<close>

theorem failed_write_keeps_client:
  "map fst (clients (tcp_broadcast_message tcp_two_connected (GameStart 0) None)) = [0, 1] \<and>
   wire (tcp_broadcast_message tcp_two_connected (GameStart 0) None) =
     [Send 10 (GameStart 0) None False, Send 11 (GameStart 0) None True]"
  by (simp add: tcp_two_connected_def tcp_init_def tcp_accept_def Let_def
      tcp_broadcast_message.simps tcp_send_message_def sendall_def)

text \<open>
  C4. When the current host is removed, the registry loses exactly that client. If nobody
  is left the host is cleared; otherwise the new host is the lowest remaining connection id
  and a \<^verbatim>\<open>host_update\<close> carrying the new host's name is written to the socket of every
  remaining client, in registry order.
\<close>

theorem remove_host_elects_lowest:
  assumes host: "host_conn_id s = Some conn_id"
    and reg: "map_of (clients s) conn_id = Some client"
  shows "clients (tcp_remove_client s conn_id) = AList.delete conn_id (clients s) \<and>
     (AList.delete conn_id (clients s) = [] \<longrightarrow> host_conn_id (tcp_remove_client s conn_id) = None) \<and>
     (AList.delete conn_id (clients s) \<noteq> [] \<longrightarrow>
        host_conn_id (tcp_remove_client s conn_id)
          = Some (Min (fst ` set (AList.delete conn_id (clients s)))) \<and>
        (\<exists>w new_host.
           map_of (AList.delete conn_id (clients s))
             (Min (fst ` set (AList.delete conn_id (clients s)))) = Some new_host \<and>
           wire (tcp_remove_client s conn_id) = wire s @ w \<and>
           map dest w = map (\<lambda>(k, cl). conn cl) (AList.delete conn_id (clients s)) \<and>
           (\<forall>m \<in> set w. body m = HostUpdate (name new_host))))"
proof (cases "AList.delete conn_id (clients s) = []")
  case True
  with host reg show ?thesis by (simp add: tcp_remove_client.simps Let_def)
next
  case False
  let ?rest = "AList.delete conn_id (clients s)"
  let ?new = "hd (sort (map fst ?rest))"
  have new: "?new = Min (fst ` set ?rest)"
    using False hd_sort_Min [of "map fst ?rest"] by simp
  have "?new \<in> fst ` set ?rest"
    unfolding new using False by (intro Min_in) auto
  then obtain new_host where nh: "map_of ?rest ?new = Some new_host"
    by (metis domD dom_map_of_conv_image_fst)
  let ?s2 = "s\<lparr>closed := closed s @ [conn client], clients := ?rest, host_conn_id := Some ?new\<rparr>"
  have rc: "tcp_remove_client s conn_id = tcp_broadcast_message ?s2 (HostUpdate (name new_host)) None"
    using host reg False nh by (simp add: tcp_remove_client.simps Let_def)
  from tcp_broadcast_message_eq [of ?s2 "HostUpdate (name new_host)" None] obtain w where
    w: "tcp_broadcast_message ?s2 (HostUpdate (name new_host)) None = ?s2\<lparr>wire := wire ?s2 @ w\<rparr>"
       "map dest w = tcp_targets None (clients ?s2)"
       "\<forall>m \<in> set w. body m = HostUpdate (name new_host) \<and> seq_no m = None"
    by blast
  have tg: "tcp_targets None ?rest = map (\<lambda>(k, cl). conn cl) ?rest"
    by (simp add: tcp_targets_def case_prod_unfold)
  have "wire (tcp_remove_client s conn_id) = wire s @ w" using rc w(1) by simp
  moreover have "map dest w = map (\<lambda>(k, cl). conn cl) ?rest" using w(2) tg by simp
  ultimately have "\<exists>w new_host.
           map_of ?rest (Min (fst ` set ?rest)) = Some new_host \<and>
           wire (tcp_remove_client s conn_id) = wire s @ w \<and>
           map dest w = map (\<lambda>(k, cl). conn cl) ?rest \<and>
           (\<forall>m \<in> set w. body m = HostUpdate (name new_host))"
    using nh w(3) unfolding new by blast
  moreover have "host_conn_id (tcp_remove_client s conn_id) = Some (Min (fst ` set ?rest))"
    using rc new by simp
  moreover have "clients (tcp_remove_client s conn_id) = ?rest" using rc by simp
  ultimately show ?thesis using False by blast
qed

theorem remove_host_elects_lowest_witness:
  "host_conn_id tcp_two_connected = Some 0 \<and>
   (\<exists>client. map_of (clients tcp_two_connected) 0 = Some client) \<and>
   host_conn_id (tcp_remove_client tcp_two_connected 0) = Some 1 \<and>
   map dest (wire (tcp_remove_client tcp_two_connected 0)) = [11]"
proof -
  have h: "host_conn_id tcp_two_connected = Some 0"
    by (simp add: tcp_two_connected_def tcp_init_def tcp_accept_def Let_def)
  have r: "map_of (clients tcp_two_connected) 0 =
      Some \<lparr>name = JNull, score = 0, answers = [], answer_times = [], conn = 10,
        addr = (''10.0.0.1'', 4000)\<rparr>"
    by (simp add: tcp_two_connected_def tcp_init_def tcp_accept_def Let_def)
  have d: "AList.delete 0 (clients tcp_two_connected) =
      [(1, \<lparr>name = JNull, score = 0, answers = [], answer_times = [], conn = 11,
        addr = (''10.0.0.2'', 4001)\<rparr>)]"
    by (simp add: tcp_two_connected_def tcp_init_def tcp_accept_def Let_def)
  have w: "wire tcp_two_connected = []"
    by (simp add: tcp_two_connected_def tcp_init_def tcp_accept_def Let_def)
  from remove_host_elects_lowest [OF h r] show ?thesis
    using h r by (auto simp: d w)
qed

section \<open>Messages from unregistered addresses\<close>

text \<open>
  C7 (amended). In the connectionless variant an \<^verbatim>\<open>answer\<close> from an address that
  is not in the registry is dropped: the server state is exactly what it was and nothing is
  sent. A \<^verbatim>\<open>start_game\<close> from such an address starts nothing and changes no
  session state, but it is answered: one \<^verbatim>\<open>error\<close> message \<open>Not registered\<close> goes
  back to that address, which also advances the sequence counter.
\<close>

theorem unregistered_address_handling:
  assumes "map_of (clients u) a = None"
  shows "udp_handle_client_answer u a data now = Inr u \<and>
     udp_handle_request_start_game u a =
       u\<lparr>seq := seq u + 1,
         wire := wire u @ [Send a (ErrorMsg ''Not registered'') (Some (seq u + 1))
                            (\<not> sendto_fails u a (length (wire u)))]\<rparr>"
  using assms
  by (simp add: udp_handle_client_answer_def udp_handle_request_start_game_def udp_send_message_eq)

theorem unregistered_address_handling_witness:
  "udp_handle_client_answer (udp_init bank2 2 2 (\<lambda>a n. False)) (''10.0.0.9'', 6000)
       (JObj [(''answer'', JStr ''A'')]) 5 = Inr (udp_init bank2 2 2 (\<lambda>a n. False)) \<and>
   wire (udp_handle_request_start_game (udp_init bank2 2 2 (\<lambda>a n. False)) (''10.0.0.9'', 6000)) =
     [Send (''10.0.0.9'', 6000) (ErrorMsg ''Not registered'') (Some 1) True]"
proof -
  have h: "map_of (clients (udp_init bank2 2 2 (\<lambda>a n. False))) (''10.0.0.9'', 6000) = None"
    by (simp add: udp_init_def)
  from unregistered_address_handling [OF h, of "JObj [(''answer'', JStr ''A'')]" 5]
  show ?thesis by (simp add: udp_init_def)
qed


text \<open>
  C7 as stated fails: a \<^verbatim>\<open>start_game\<close> datagram from an address that never registered
  makes the fresh server send a reply to that address.
\<close>

theorem unregistered_start_gets_reply:
  "wire (udp_step (udp_init bank2 2 2 (\<lambda>a n. False))
           (Datagram 0 (''10.0.0.9'', 6000) (client_message ''start_game'' []) 0)) =
     [Send (''10.0.0.9'', 6000) (ErrorMsg ''Not registered'') (Some 1) True]"
  by (simp add: udp_eval)



end
